theory Spec2Isabelle
  imports Complex_Main
begin

section \<open>Shared helpers: decimal digits\<close>

text \<open>
  JavaScript template literals render a non-negative integer in decimal.
  \<open>show_nat\<close> is that rendering; it is used for HTTP status codes, error
  sub-codes, date components and the digits of formatted metrics.
\<close>

definition digit_char :: "nat \<Rightarrow> char" where
  "digit_char n = ''0123456789'' ! n"

fun show_nat :: "nat \<Rightarrow> string" where
  "show_nat n = (if n < 10 then [digit_char n] else show_nat (n div 10) @ [digit_char (n mod 10)])"

declare show_nat.simps [simp del]

section \<open>Resilient request executor: \<open>graphRequest\<close>\<close>

text \<open>
  Configuration constants of the server (\<open>REQUEST_TIMEOUT_MS\<close>, \<open>MAX_RETRIES\<close>,
  \<open>RETRY_DELAY_MS\<close>).
\<close>

definition REQUEST_TIMEOUT_MS :: nat where "REQUEST_TIMEOUT_MS = 30000"
definition MAX_RETRIES :: nat where "MAX_RETRIES = 2"
definition RETRY_DELAY_MS :: nat where "RETRY_DELAY_MS = 1000"

text \<open>\<open>class ApiError extends Error\<close>: a message and a status code.\<close>

datatype api_error = ApiError (err_message: string) (statusCode: nat)

text \<open>
  The error envelope of the remote API, as the cast in \<open>graphRequest\<close> types it:
  \<open>{ message; error_subcode?; error_user_msg? }\<close>.
\<close>

record error_envelope =
  message :: string
  error_user_msg :: "string option"
  error_subcode :: "nat option"

text \<open>
  A decoded JSON body. \<open>reply_value\<close> is the decoded value itself (what
  \<open>graphRequest\<close> returns on success), \<open>reply_error\<close> is its \<open>error\<close> member when
  the body is an object that has one, and \<open>reply_text\<close> is \<open>JSON.stringify\<close> of it.
\<close>

record 'a json_reply =
  reply_value :: 'a
  reply_error :: "error_envelope option"
  reply_text :: string

text \<open>
  What \<open>await res.json()\<close> does with the body of a response: it decodes it, or
  rejects with a \<open>SyntaxError\<close> carrying a message when the body is not JSON.
\<close>

datatype 'a body = Json "'a json_reply" | NotJson string

text \<open>
  What one call of \<open>fetchWithTimeout\<close> followed by \<open>res.json()\<close> yields: a
  response with a status and a body, the abort raised by the timer after
  \<open>REQUEST_TIMEOUT_MS\<close> (a \<open>DOMException\<close> named \<open>AbortError\<close>), or any other
  rejection of \<open>fetch\<close> (connection reset, DNS failure) with its message.
\<close>

datatype 'a fetch_outcome =
    Response nat "'a body"
  | AbortError
  | NetworkFailure string

datatype log_level = Info | Warn | Error

text \<open>
  The observable effects of a call besides its result: the log lines written
  to stderr (level and message; the structured \<open>data\<close> argument is left out)
  and the back-off sleeps with their duration in milliseconds.
\<close>

datatype event = Log log_level string | Sleep nat

record 'a run =
  outcome :: "api_error + 'a"
  attempts :: nat
  events :: "event list"

text \<open>\<open>res.ok\<close>: the status is in the range 200 to 299.\<close>

definition res_ok :: "nat \<Rightarrow> bool" where
  "res_ok status \<longleftrightarrow> 200 \<le> status \<and> status \<le> 299"

text \<open>
  The diagnostic text \<open>errDetail\<close>. An empty \<open>error_user_msg\<close> and a zero
  \<open>error_subcode\<close> are falsy and add nothing.
\<close>

definition errDetail :: "'a json_reply \<Rightarrow> nat \<Rightarrow> string" where
  "errDetail json status =
     (case reply_error json of
        Some errObj \<Rightarrow>
          message errObj
          @ (case error_user_msg errObj of
               None \<Rightarrow> ''''
             | Some m \<Rightarrow> if m = '''' then '''' else '' | '' @ m)
          @ (case error_subcode errObj of
               None \<Rightarrow> ''''
             | Some c \<Rightarrow> if c = 0 then '''' else '' (subcode: '' @ show_nat c @ '')'')
      | None \<Rightarrow> ''HTTP '' @ show_nat status @ '': '' @ reply_text json)"

text \<open>Putting the effects of one attempt in front of the rest of the run.\<close>

definition after_attempt :: "event list \<Rightarrow> 'a run \<Rightarrow> 'a run" where
  "after_attempt evs r = r\<lparr>attempts := Suc (attempts r), events := evs @ events r\<rparr>"

definition finished :: "event list \<Rightarrow> api_error + 'a \<Rightarrow> 'a run" where
  "finished evs res = \<lparr>outcome = res, attempts = 1, events = evs\<rparr>"

text \<open>
  The retry loop \<open>for (let attempt = 0; attempt <= retries; attempt++)\<close>, from a
  given value of \<open>attempt\<close>. \<open>net k\<close> is what the network yields at attempt \<open>k\<close>.
  The branches follow the source:
  \<^item> a decoded body with \<open>!res.ok\<close>: log, throw at once for a status in 400..499,
    otherwise sleep and continue while \<open>attempt < retries\<close>, else throw;
  \<^item> the \<open>catch\<close> block: an \<open>ApiError\<close> is rethrown; an \<open>AbortError\<close> becomes
    \<open>ApiError(..., 408)\<close> at once; anything else (a rejected \<open>fetch\<close>, or the
    \<open>SyntaxError\<close> of \<open>res.json()\<close>, which is evaluated before \<open>res.ok\<close> is
    looked at) sleeps and continues while \<open>attempt < retries\<close>, else becomes
    \<open>ApiError('Network error: ...', 0)\<close>;
  \<^item> after the loop: \<open>ApiError('Max retries exceeded', 0)\<close>.
\<close>

function graphRequest_loop ::
  "(nat \<Rightarrow> 'a fetch_outcome) \<Rightarrow> string \<Rightarrow> string \<Rightarrow> nat \<Rightarrow> nat \<Rightarrow> 'a run" where
  "graphRequest_loop net method path retries attempt =
     (if attempt \<le> retries then
        (case net attempt of
           Response status (Json json) \<Rightarrow>
             if \<not> res_ok status then
               (let detail = errDetail json status;
                    logged = Log Error (''Meta API error on '' @ method @ '' '' @ path)
                in if 400 \<le> status \<and> status < 500 then
                     finished [logged] (Inl (ApiError detail status))
                   else if attempt < retries then
                     after_attempt
                       [logged,
                        Log Warn (''Meta API '' @ show_nat status @ '' on '' @ method @ '' '' @ path @ '', retrying''),
                        Sleep (RETRY_DELAY_MS * (attempt + 1))]
                       (graphRequest_loop net method path retries (attempt + 1))
                   else finished [logged] (Inl (ApiError detail status)))
             else finished [] (Inr (reply_value json))
         | Response status (NotJson msg) \<Rightarrow>
             if attempt < retries then
               after_attempt
                 [Log Warn (''Network error on '' @ method @ '' '' @ path @ '', retrying''),
                  Sleep (RETRY_DELAY_MS * (attempt + 1))]
                 (graphRequest_loop net method path retries (attempt + 1))
             else finished [] (Inl (ApiError (''Network error: '' @ msg) 0))
         | AbortError \<Rightarrow>
             finished []
               (Inl (ApiError (''Request timed out after '' @ show_nat REQUEST_TIMEOUT_MS @ ''ms'') 408))
         | NetworkFailure msg \<Rightarrow>
             if attempt < retries then
               after_attempt
                 [Log Warn (''Network error on '' @ method @ '' '' @ path @ '', retrying''),
                  Sleep (RETRY_DELAY_MS * (attempt + 1))]
                 (graphRequest_loop net method path retries (attempt + 1))
             else finished [] (Inl (ApiError (''Network error: '' @ msg) 0)))
      else \<lparr>outcome = Inl (ApiError ''Max retries exceeded'' 0), attempts = 0, events = []\<rparr>)"
  by pat_completeness auto
termination
  by (relation "measure (\<lambda>(net, method, path, retries, attempt). Suc retries - attempt)") auto

declare graphRequest_loop.simps [simp del]

definition graphRequest ::
  "(nat \<Rightarrow> 'a fetch_outcome) \<Rightarrow> string \<Rightarrow> string \<Rightarrow> nat \<Rightarrow> 'a run" where
  "graphRequest net method path retries = graphRequest_loop net method path retries 0"

text \<open>\<open>graphGet\<close> calls \<open>graphRequest\<close> with the default \<open>retries = MAX_RETRIES\<close>.\<close>

definition graphGet :: "(nat \<Rightarrow> 'a fetch_outcome) \<Rightarrow> string \<Rightarrow> 'a run" where
  "graphGet net path = graphRequest net ''GET'' path MAX_RETRIES"

section \<open>JavaScript numbers and their text forms\<close>

text \<open>
  A JavaScript \<open>number\<close> is modelled as \<open>NaN\<close>, an infinity, or a finite value.
  Finite values are exact rationals: the rounding of IEEE doubles and the sign
  of zero are not modelled (no division of the code has a zero divisor, and
  \<open>-0\<close> prints as \<open>0\<close>).
\<close>

datatype jsnum = NaN | Fin rat | PosInf | NegInf


fun js_mul :: "jsnum \<Rightarrow> jsnum \<Rightarrow> jsnum" where
  "js_mul (Fin a) (Fin b) = Fin (a * b)"
| "js_mul NaN _ = NaN"
| "js_mul _ NaN = NaN"
| "js_mul PosInf (Fin b) = (if b = 0 then NaN else if 0 < b then PosInf else NegInf)"
| "js_mul NegInf (Fin b) = (if b = 0 then NaN else if 0 < b then NegInf else PosInf)"
| "js_mul (Fin a) PosInf = (if a = 0 then NaN else if 0 < a then PosInf else NegInf)"
| "js_mul (Fin a) NegInf = (if a = 0 then NaN else if 0 < a then NegInf else PosInf)"
| "js_mul PosInf PosInf = PosInf"
| "js_mul PosInf NegInf = NegInf"
| "js_mul NegInf PosInf = NegInf"
| "js_mul NegInf NegInf = PosInf"

fun js_div :: "jsnum \<Rightarrow> jsnum \<Rightarrow> jsnum" where
  "js_div (Fin a) (Fin b) =
     (if b = 0 then (if a = 0 then NaN else if 0 < a then PosInf else NegInf) else Fin (a / b))"
| "js_div NaN _ = NaN"
| "js_div _ NaN = NaN"
| "js_div (Fin a) PosInf = Fin 0"
| "js_div (Fin a) NegInf = Fin 0"
| "js_div PosInf (Fin b) = (if 0 \<le> b then PosInf else NegInf)"
| "js_div NegInf (Fin b) = (if 0 \<le> b then NegInf else PosInf)"
| "js_div PosInf PosInf = NaN"
| "js_div PosInf NegInf = NaN"
| "js_div NegInf PosInf = NaN"
| "js_div NegInf NegInf = NaN"


text \<open>The comparisons \<open>a > b\<close> and \<open>a >= b\<close>: false as soon as one side is \<open>NaN\<close>.\<close>

fun js_gt :: "jsnum \<Rightarrow> jsnum \<Rightarrow> bool" where
  "js_gt (Fin a) (Fin b) = (b < a)"
| "js_gt NaN _ = False"
| "js_gt _ NaN = False"
| "js_gt PosInf PosInf = False"
| "js_gt PosInf _ = True"
| "js_gt _ PosInf = False"
| "js_gt NegInf _ = False"
| "js_gt _ NegInf = True"


text \<open>\<open>Math.round\<close>: the nearest integer, halves going up.\<close>

fun Math_round :: "jsnum \<Rightarrow> jsnum" where
  "Math_round (Fin a) = Fin (of_int \<lfloor>a + 1 / 2\<rfloor>)"
| "Math_round x = x"

text \<open>\<open>x || 0\<close> on a number: \<open>NaN\<close> and zero are falsy.\<close>

fun or_zero :: "jsnum \<Rightarrow> jsnum" where
  "or_zero NaN = Fin 0"
| "or_zero x = x"

text \<open>
  Decimal digits of a text, and the white space that \<open>parseFloat\<close> and
  \<open>parseInt\<close> skip (the ASCII part of it: tab, line feed, vertical tab, form
  feed, carriage return, space).
\<close>

definition is_digit :: "char \<Rightarrow> bool" where
  "is_digit c \<longleftrightarrow> c \<in> set ''0123456789''"

definition digit_val :: "char \<Rightarrow> int" where
  "digit_val c = of_char c - 48"

definition digits_val :: "string \<Rightarrow> int" where
  "digits_val ds = foldl (\<lambda>a c. 10 * a + digit_val c) 0 ds"

definition is_space :: "char \<Rightarrow> bool" where
  "is_space c \<longleftrightarrow> of_char c \<in> {9, 10, 11, 12, 13, 32 :: nat}"

text \<open>An optional sign in front of a text: whether it is a minus, and the rest.\<close>

fun split_sign :: "string \<Rightarrow> bool \<times> string" where
  "split_sign (c # r) =
     (if c = CHR ''-'' then (True, r) else if c = CHR ''+'' then (False, r) else (False, c # r))"
| "split_sign [] = (False, [])"

text \<open>
  The exponent part that may follow the mantissa: \<open>e\<close> or \<open>E\<close>, an optional
  sign, and at least one digit. Anything else is left unread and counts as
  exponent 0.
\<close>

definition exponent_part :: "string \<Rightarrow> int" where
  "exponent_part r =
     (case r of
        [] \<Rightarrow> 0
      | c # r' \<Rightarrow>
          if c = CHR ''e'' \<or> c = CHR ''E'' then
            (let (neg, ds) = split_sign r'; e = takeWhile is_digit ds
             in if e = [] then 0
                else if neg then - digits_val e else digits_val e)
          else 0)"

text \<open>
  \<open>parseFloat\<close>: skip white space, then read the longest prefix that is a
  decimal literal (sign, \<open>Infinity\<close>, or digits with an optional fraction and
  exponent); \<open>NaN\<close> when there is none.
\<close>

definition parseFloat :: "string \<Rightarrow> jsnum" where
  "parseFloat s =
     (let (neg, u) = split_sign (dropWhile is_space s)
      in if take 8 u = ''Infinity'' then (if neg then NegInf else PosInf)
         else
           (let ip = takeWhile is_digit u;
                r1 = dropWhile is_digit u;
                dot = (r1 \<noteq> [] \<and> hd r1 = CHR ''.'');
                fp = (if dot then takeWhile is_digit (tl r1) else []);
                r2 = (if dot then dropWhile is_digit (tl r1) else r1)
            in if ip = [] \<and> fp = [] then NaN
               else
                 (let mant = of_int (digits_val ip) + of_int (digits_val fp) / 10 ^ length fp;
                      v = mant * 10 powi exponent_part r2
                  in Fin (if neg then - v else v))))"

text \<open>\<open>parseInt(s, 10)\<close>: skip white space, an optional sign, then digits.\<close>

definition parseInt :: "string \<Rightarrow> jsnum" where
  "parseInt s =
     (let (neg, u) = split_sign (dropWhile is_space s);
          ds = takeWhile is_digit u
      in if ds = [] then NaN
         else Fin (if neg then - of_int (digits_val ds) else of_int (digits_val ds)))"




section \<open>Metric normalizer: \<open>getActionValue\<close>, \<open>calcDerivedMetrics\<close>\<close>

text \<open>
  One entry of an action list of a row. The remote API sends both members as
  JSON strings; either may be missing.
\<close>

record action =
  action_type :: "string option"
  action_value :: "string option"

text \<open>
  One raw result row (\<open>MetricRow\<close>): identifying fields, the numeric fields as
  the API sends them (JSON strings, possibly absent), and the action lists.
\<close>

record metric_row =
  row_campaign_id :: "string option"
  row_campaign_name :: "string option"
  row_date_start :: "string option"
  row_spend :: "string option"
  row_impressions :: "string option"
  row_clicks :: "string option"
  row_reach :: "string option"
  row_ctr :: "string option"
  row_cpc :: "string option"
  row_cpm :: "string option"
  row_frequency :: "string option"
  row_unique_clicks :: "string option"
  row_actions :: "action list option"
  row_action_values :: "action list option"
  row_cost_per_action_type :: "action list option"
  row_conversions :: "action list option"

text \<open>
  \<open>String(x || '0')\<close> for a member that is absent or a string: an absent member
  and the empty string are falsy and give \<open>'0'\<close>.
\<close>

definition text_or_0 :: "string option \<Rightarrow> string" where
  "text_or_0 x = (case x of None \<Rightarrow> ''0'' | Some s \<Rightarrow> if s = '''' then ''0'' else s)"

text \<open>
  \<open>getActionValue\<close>: 0 when the list is absent; otherwise the first entry whose
  \<open>action_type\<close> is the wanted one, its value parsed with \<open>parseFloat\<close>; 0 when
  no entry matches.
\<close>

definition getActionValue :: "action list option \<Rightarrow> string \<Rightarrow> jsnum" where
  "getActionValue actions actionType =
     (case actions of
        None \<Rightarrow> Fin 0
      | Some as \<Rightarrow>
          (case find (\<lambda>a. action_type a = Some actionType) as of
             Some found \<Rightarrow> parseFloat (text_or_0 (action_value found))
           | None \<Rightarrow> Fin 0))"

text \<open>\<open>Math.round(x * 100) / 100\<close>.\<close>

definition round_100 :: "jsnum \<Rightarrow> jsnum" where
  "round_100 x = js_div (Math_round (js_mul x (Fin 100))) (Fin 100)"

record derived_metrics =
  spend :: jsnum
  impressions :: jsnum
  clicks :: jsnum
  reach :: jsnum
  frequency :: jsnum
  ctr :: jsnum
  cpc :: jsnum
  cpm :: jsnum
  unique_clicks :: jsnum
  purchases :: jsnum
  revenue :: jsnum
  roas :: jsnum
  cpa :: jsnum
  add_to_carts :: jsnum
  cost_per_atc :: jsnum
  initiate_checkouts :: jsnum
  view_contents :: jsnum
  leads :: jsnum

definition calcDerivedMetrics :: "metric_row \<Rightarrow> derived_metrics" where
  "calcDerivedMetrics row =
     (let spend = parseFloat (text_or_0 (row_spend row));
          impressions = parseInt (text_or_0 (row_impressions row));
          clicks = parseInt (text_or_0 (row_clicks row));
          reach = parseInt (text_or_0 (row_reach row));
          ctr = parseFloat (text_or_0 (row_ctr row));
          cpc = parseFloat (text_or_0 (row_cpc row));
          cpm = parseFloat (text_or_0 (row_cpm row));
          frequency = parseFloat (text_or_0 (row_frequency row));
          uniqueClicks = parseInt (text_or_0 (row_unique_clicks row));
          actions = row_actions row;
          actionValues = row_action_values row;
          purchases = getActionValue actions ''purchase'';
          addToCarts = getActionValue actions ''add_to_cart'';
          initiateCheckouts = getActionValue actions ''initiate_checkout'';
          viewContents = getActionValue actions ''view_content'';
          leads = getActionValue actions ''lead'';
          revenue = getActionValue actionValues ''purchase'';
          roas = (if js_gt spend (Fin 0) then round_100 (js_div revenue spend) else Fin 0);
          cpa = (if js_gt purchases (Fin 0) then round_100 (js_div spend purchases) else Fin 0);
          costPerATC = (if js_gt addToCarts (Fin 0) then round_100 (js_div spend addToCarts) else Fin 0)
      in \<lparr>spend = round_100 spend,
          impressions = impressions, clicks = clicks, reach = reach,
          frequency = round_100 frequency,
          ctr = round_100 ctr,
          cpc = round_100 cpc,
          cpm = round_100 cpm,
          unique_clicks = uniqueClicks,
          purchases = purchases, revenue = round_100 revenue, roas = roas, cpa = cpa,
          add_to_carts = addToCarts, cost_per_atc = costPerATC,
          initiate_checkouts = initiateCheckouts,
          view_contents = viewContents,
          leads = leads\<rparr>)"


section \<open>Comparison arithmetic: \<open>pctChange\<close>\<close>





text \<open>Concrete rows used as inputs below.\<close>

definition empty_row :: metric_row where
  "empty_row =
     \<lparr>row_campaign_id = None, row_campaign_name = None, row_date_start = None,
      row_spend = None, row_impressions = None, row_clicks = None, row_reach = None,
      row_ctr = None, row_cpc = None, row_cpm = None, row_frequency = None,
      row_unique_clicks = None, row_actions = None, row_action_values = None,
      row_cost_per_action_type = None, row_conversions = None\<rparr>"




definition zero_spend_row :: metric_row where
  "zero_spend_row =
     empty_row\<lparr>row_spend := Some ''0.00'',
       row_actions := Some [\<lparr>action_type = Some ''purchase'', action_value = Some ''5''\<rparr>],
       row_action_values := Some [\<lparr>action_type = Some ''purchase'', action_value = Some ''80''\<rparr>]\<rparr>"

definition no_purchase_row :: metric_row where
  "no_purchase_row =
     empty_row\<lparr>row_spend := Some ''25'',
       row_actions := Some [\<lparr>action_type = Some ''purchase'', action_value = Some ''0''\<rparr>]\<rparr>"

section \<open>The JavaScript \<open>Date\<close> the resolver is written against\<close>

text \<open>
  A \<open>Date\<close> object holds a time value: milliseconds since 1970-01-01T00:00Z, or
  \<open>NaN\<close> (an invalid date, \<open>None\<close> here). Every operation that produces a time
  value clips it to the range of plus or minus 8.64e15 ms.
\<close>

type_synonym date = "int option"

definition msPerDay :: int where "msPerDay = 86400000"

definition TimeClip :: "int \<Rightarrow> date" where
  "TimeClip t = (if \<bar>t\<bar> \<le> 8640000000000000 then Some t else None)"

text \<open>
  The proleptic Gregorian calendar on day numbers (days since 1970-01-01):
  the day number of a year, a month (1 to 12) and a day of the month, and the
  year, month and day of a day number.
\<close>

definition days_from_civil :: "int \<Rightarrow> int \<Rightarrow> int \<Rightarrow> int" where
  "days_from_civil y m d =
     (let y' = (if m \<le> 2 then y - 1 else y);
          era = y' div 400;
          yoe = y' - era * 400;
          doy = (153 * (if 2 < m then m - 3 else m + 9) + 2) div 5 + d - 1;
          doe = yoe * 365 + yoe div 4 - yoe div 100 + doy
      in era * 146097 + doe - 719468)"

definition civil_from_days :: "int \<Rightarrow> int \<times> int \<times> int" where
  "civil_from_days z =
     (let z' = z + 719468;
          era = z' div 146097;
          doe = z' - era * 146097;
          yoe = (doe - doe div 1460 + doe div 36524 - doe div 146096) div 365;
          doy = doe - (365 * yoe + yoe div 4 - yoe div 100);
          mp = (5 * doy + 2) div 153;
          d = doy - (153 * mp + 2) div 5 + 1;
          m = (if mp < 10 then mp + 3 else mp - 9)
      in (if m \<le> 2 then yoe + era * 400 + 1 else yoe + era * 400, m, d))"

text \<open>
  \<open>MakeDay(year, month, date)\<close> with a month counted from 0 that may lie
  outside 0..11 and a day of the month that may lie outside the month.
\<close>

definition MakeDay :: "int \<Rightarrow> int \<Rightarrow> int \<Rightarrow> int" where
  "MakeDay year month dt = days_from_civil (year + month div 12) (month mod 12 + 1) 1 + dt - 1"

text \<open>
  The environment of the process: the clock (\<open>new Date()\<close>) and the local time
  zone, as its offset from UTC in milliseconds at a UTC time value and at a
  local time value (\<open>LocalTZA(t, true)\<close> and \<open>LocalTZA(t, false)\<close>).
\<close>

record js_env =
  now :: int
  tza_of_utc :: "int \<Rightarrow> int"
  tza_of_local :: "int \<Rightarrow> int"

definition LocalTime :: "js_env \<Rightarrow> int \<Rightarrow> int" where
  "LocalTime env t = t + tza_of_utc env t"

definition UTC :: "js_env \<Rightarrow> int \<Rightarrow> int" where
  "UTC env t = t - tza_of_local env t"

text \<open>\<open>getFullYear()\<close>, \<open>getMonth()\<close> (from 0) and \<open>getDay()\<close> (0 is Sunday) of a valid date, in local time.\<close>

definition getFullYear :: "js_env \<Rightarrow> int \<Rightarrow> int" where
  "getFullYear env t = fst (civil_from_days (LocalTime env t div msPerDay))"

definition getMonth :: "js_env \<Rightarrow> int \<Rightarrow> int" where
  "getMonth env t = fst (snd (civil_from_days (LocalTime env t div msPerDay))) - 1"

definition getDay :: "js_env \<Rightarrow> int \<Rightarrow> int" where
  "getDay env t = (LocalTime env t div msPerDay + 4) mod 7"

text \<open>
  \<open>x.setDate(x.getDate() + k)\<close>, the only way the code moves a date: the local
  time is moved by \<open>k\<close> whole days, keeping the local time of day, and is then
  converted back to UTC and clipped. \<open>k\<close> is \<open>None\<close> when the argument is \<open>NaN\<close>.
  An invalid date stays invalid.
\<close>

definition setDate_relative :: "js_env \<Rightarrow> date \<Rightarrow> int option \<Rightarrow> date" where
  "setDate_relative env d k =
     (case (d, k) of
        (Some t, Some k') \<Rightarrow> TimeClip (UTC env (LocalTime env t + k' * msPerDay))
      | _ \<Rightarrow> None)"

text \<open>
  \<open>new Date(year, month, day)\<close>: local midnight of that day; a year from 0 to
  99 counts from 1900.
\<close>

definition new_Date_ymd :: "js_env \<Rightarrow> int \<Rightarrow> int \<Rightarrow> int \<Rightarrow> date" where
  "new_Date_ymd env y m d =
     (let yr = (if 0 \<le> y \<and> y \<le> 99 then 1900 + y else y)
      in TimeClip (UTC env (MakeDay yr m d * msPerDay)))"

text \<open>
  \<open>new Date(text)\<close> for the date-only ISO form \<open>YYYY-MM-DD\<close>, which is read as
  midnight UTC. A month outside 1..12 or a day outside 1..31 gives an invalid
  date; a day beyond the end of a shorter month rolls over into the next
  month. Other forms of text are not modelled: they count as invalid.
\<close>

definition new_Date_text :: "string \<Rightarrow> date" where
  "new_Date_text s =
     (if length s = 10 \<and> s ! 4 = CHR ''-'' \<and> s ! 7 = CHR ''-''
         \<and> list_all is_digit (take 4 s) \<and> list_all is_digit (take 2 (drop 5 s))
         \<and> list_all is_digit (drop 8 s)
      then (let y = digits_val (take 4 s);
                m = digits_val (take 2 (drop 5 s));
                d = digits_val (drop 8 s)
            in if 1 \<le> m \<and> m \<le> 12 \<and> 1 \<le> d \<and> d \<le> 31
               then TimeClip (MakeDay y (m - 1) d * msPerDay) else None)
      else None)"

text \<open>
  \<open>toISOString()\<close> of a valid date: the UTC date and time, the year with four
  digits when it lies in 0..9999 and otherwise with a sign and six digits.
\<close>

definition pad_left :: "nat \<Rightarrow> string \<Rightarrow> string" where
  "pad_left n s = replicate (n - length s) (CHR ''0'') @ s"

definition iso_date_part :: "int \<Rightarrow> string" where
  "iso_date_part z =
     (let (y, m, d) = civil_from_days z;
          year = (if 0 \<le> y \<and> y \<le> 9999 then pad_left 4 (show_nat (nat y))
                  else (if y < 0 then ''-'' else ''+'') @ pad_left 6 (show_nat (nat \<bar>y\<bar>)))
      in year @ ''-'' @ pad_left 2 (show_nat (nat m)) @ ''-'' @ pad_left 2 (show_nat (nat d)))"

definition toISOString :: "int \<Rightarrow> string" where
  "toISOString t =
     (let tod = t mod msPerDay
      in iso_date_part (t div msPerDay)
         @ ''T'' @ pad_left 2 (show_nat (nat (tod div 3600000)))
         @ '':'' @ pad_left 2 (show_nat (nat (tod div 60000 mod 60)))
         @ '':'' @ pad_left 2 (show_nat (nat (tod div 1000 mod 60)))
         @ ''.'' @ pad_left 3 (show_nat (nat (tod mod 1000))) @ ''Z'')"

text \<open>The exceptions that reach a caller of the date functions and of the report handler.\<close>

datatype js_exception = RangeError | Thrown api_error

section \<open>Date range resolver: \<open>resolveDateRange\<close>, \<open>getPreviousPeriod\<close>\<close>

record date_range =
  since :: string
  until :: string

text \<open>The argument of \<open>resolveDateRange\<close>: a string, or an object \<open>{since, until}\<close>.\<close>

datatype time_range = Symbolic string | Explicit date_range

text \<open>
  \<open>fmt\<close>, the local function \<open>d.toISOString().slice(0, 10)\<close>. \<open>toISOString\<close> throws a
  \<open>RangeError\<close> on an invalid date.
\<close>

definition iso_date :: "int \<Rightarrow> string" where
  "iso_date t = take 10 (toISOString t)"

definition fmt :: "date \<Rightarrow> js_exception + string" where
  "fmt d = (case d of None \<Rightarrow> Inl RangeError | Some t \<Rightarrow> Inr (iso_date t))"

text \<open>
  The text that \<open>fmt\<close> gives for any time of the day with day number \<open>z\<close>: for
  a year in 0..9999 the calendar date \<open>YYYY-MM-DD\<close> of that day.
\<close>

definition date_text :: "int \<Rightarrow> string" where
  "date_text z = iso_date (z * msPerDay)"

text \<open>
  The object literal \<open>{ since: fmt(a), until: fmt(b) }\<close>: \<open>fmt(a)\<close> is evaluated
  first, and either call may throw.
\<close>

definition range_of :: "date \<Rightarrow> date \<Rightarrow> js_exception + date_range" where
  "range_of a b =
     (case fmt a of
        Inl e \<Rightarrow> Inl e
      | Inr s \<Rightarrow> (case fmt b of Inl e \<Rightarrow> Inl e | Inr u \<Rightarrow> Inr \<lparr>since = s, until = u\<rparr>))"

text \<open>
  \<open>timeRange.match(/^last_(\d+)d$/)\<close>: the digits between \<open>last_\<close> and the final
  \<open>d\<close>, when the text has that form.
\<close>

definition match_last_Nd :: "string \<Rightarrow> string option" where
  "match_last_Nd s =
     (if take 5 s = ''last_'' \<and> 6 < length s \<and> last s = CHR ''d''
         \<and> list_all is_digit (butlast (drop 5 s))
      then Some (butlast (drop 5 s)) else None)"

definition resolveDateRange :: "js_env \<Rightarrow> time_range \<Rightarrow> js_exception + date_range" where
  "resolveDateRange env timeRange =
     (case timeRange of
        Explicit r \<Rightarrow> Inr r
      | Symbolic s \<Rightarrow>
          (let today = Some (now env) in
           if s = ''today'' then range_of today today
           else if s = ''yesterday'' then
             (let d = setDate_relative env today (Some (- 1)) in range_of d d)
           else if s = ''this_week'' then
             (let dow = getDay env (now env);
                  mon = setDate_relative env today (Some (- (if dow = 0 then 6 else dow - 1)))
              in range_of mon today)
           else if s = ''last_week'' then
             (let dow = getDay env (now env);
                  mon = setDate_relative env today (Some (- (if dow = 0 then 6 else dow - 1) - 7));
                  sun = setDate_relative env mon (Some 6)
              in range_of mon sun)
           else if s = ''this_month'' then
             (let first = new_Date_ymd env (getFullYear env (now env)) (getMonth env (now env)) 1
              in range_of first today)
           else if s = ''last_month'' then
             (let first = new_Date_ymd env (getFullYear env (now env)) (getMonth env (now env) - 1) 1;
                  last = new_Date_ymd env (getFullYear env (now env)) (getMonth env (now env)) 0
              in range_of first last)
           else
             (let days = (case match_last_Nd s of Some ds \<Rightarrow> digits_val ds | None \<Rightarrow> 7);
                  until = setDate_relative env today (Some (- 1));
                  since = setDate_relative env until (Some (- days + 1))
              in range_of since until)))"

text \<open>
  \<open>getPreviousPeriod(since, until)\<close>, the two parameters named \<open>sinceText\<close> and
  \<open>untilText\<close> here. \<open>days\<close> is \<open>Math.round((u - s) / 86400000) + 1\<close>, \<open>NaN\<close> when
  either text is not a date.
\<close>

definition getPreviousPeriod :: "js_env \<Rightarrow> string \<Rightarrow> string \<Rightarrow> js_exception + date_range" where
  "getPreviousPeriod env sinceText untilText =
     (let s = new_Date_text sinceText;
          u = new_Date_text untilText;
          days = (case (s, u) of
                    (Some a, Some b) \<Rightarrow>
                      Some (\<lfloor>rat_of_int (b - a) / rat_of_int msPerDay + 1 / 2\<rfloor> + 1)
                  | _ \<Rightarrow> None);
          prevUntil = setDate_relative env s (Some (- 1));
          prevSince = setDate_relative env prevUntil (map_option (\<lambda>n. - n + 1) days)
      in range_of prevSince prevUntil)"

text \<open>
  Concrete environments. \<open>utc_env\<close> is a process in UTC whose clock shows
  2025-03-15T12:00Z. \<open>berlin_env\<close> is a process in Europe/Berlin with the rules
  of the year 2025: UTC+2 from 2025-03-30T01:00Z until 2025-10-26T01:00Z,
  UTC+1 otherwise; a local time that occurs twice or not at all is read with
  the offset in force before the change. Its clock shows 2025-11-15T00:30Z.
\<close>

definition utc_env :: js_env where
  "utc_env = \<lparr>now = 1742040000000, tza_of_utc = (\<lambda>t. 0), tza_of_local = (\<lambda>t. 0)\<rparr>"

definition berlin_env :: js_env where
  "berlin_env =
     \<lparr>now = 1763166600000,
      tza_of_utc = (\<lambda>t. if 1743296400000 \<le> t \<and> t < 1761440400000 then 7200000 else 3600000),
      tza_of_local = (\<lambda>t. if 1743303600000 \<le> t \<and> t < 1761447600000 then 7200000 else 3600000)\<rparr>"

section \<open>Redundant-signal filter: \<open>stripRedundantActions\<close>\<close>

text \<open>
  The payload of an insights call: an object whose \<open>data\<close> member, when
  present, is the list of rows.
\<close>

record insights_payload =
  payload_data :: "metric_row list option"

definition REDUNDANT_ACTION_PREFIXES :: "string list" where
  "REDUNDANT_ACTION_PREFIXES =
     [''omni_'', ''onsite_web_app_'', ''onsite_web_'', ''onsite_app_'',
      ''web_app_in_store_'', ''offsite_conversion.fb_pixel_'']"

text \<open>\<open>s.startsWith(p)\<close>, and \<open>String(x || '')\<close> for a member that is absent or a string.\<close>

definition startsWith :: "string \<Rightarrow> string \<Rightarrow> bool" where
  "startsWith s p \<longleftrightarrow> take (length p) s = p"

definition text_or_empty :: "string option \<Rightarrow> string" where
  "text_or_empty x = (case x of None \<Rightarrow> '''' | Some s \<Rightarrow> s)"

definition is_redundant :: "action \<Rightarrow> bool" where
  "is_redundant a \<longleftrightarrow>
     list_ex (\<lambda>p. startsWith (text_or_empty (action_type a)) p) REDUNDANT_ACTION_PREFIXES"

definition strip_row :: "metric_row \<Rightarrow> metric_row" where
  "strip_row r =
     r\<lparr>row_actions := map_option (filter (\<lambda>a. \<not> is_redundant a)) (row_actions r),
       row_action_values := map_option (filter (\<lambda>a. \<not> is_redundant a)) (row_action_values r),
       row_cost_per_action_type :=
         map_option (filter (\<lambda>a. \<not> is_redundant a)) (row_cost_per_action_type r),
       row_conversions := map_option (filter (\<lambda>a. \<not> is_redundant a)) (row_conversions r)\<rparr>"

definition stripRedundantActions :: "insights_payload \<Rightarrow> insights_payload" where
  "stripRedundantActions p = p\<lparr>payload_data := map_option (map strip_row) (payload_data p)\<rparr>"

section \<open>Batch fan-out of \<open>bulk_get_insights\<close>\<close>

text \<open>
  \<open>Promise.allSettled\<close> never rejects: it turns the outcome of each promise
  into a settled result, in the order of the promises.
\<close>

datatype 'a settled = Fulfilled 'a | Rejected api_error

definition allSettled :: "(api_error + 'a) list \<Rightarrow> 'a settled list" where
  "allSettled ps = map (\<lambda>p. case p of Inl e \<Rightarrow> Rejected e | Inr v \<Rightarrow> Fulfilled v) ps"

text \<open>
  One entry of the output: \<open>{ id, data }\<close> or \<open>{ id, error }\<close>. The reason of a
  rejection is the \<open>ApiError\<close> that \<open>graphGet\<close> threw, so \<open>error\<close> is its message.
\<close>

datatype bulk_item = ItemData string insights_payload | ItemError string string

fun item_id :: "bulk_item \<Rightarrow> string" where
  "item_id (ItemData i _) = i"
| "item_id (ItemError i _) = i"

text \<open>
  The fan-out (\<open>compact_flag\<close> is the argument \<open>compact\<close>). \<open>fetchOne i\<close> is what \<open>graphGet('/' + i + '/insights', params)\<close>
  settles to: the fetches do not depend on one another.
\<close>

definition bulk_fan_out ::
  "(string \<Rightarrow> api_error + insights_payload) \<Rightarrow> bool \<Rightarrow> string list \<Rightarrow> bulk_item list" where
  "bulk_fan_out fetchOne compact_flag objectIds =
     (let results = allSettled (map fetchOne objectIds)
      in map (\<lambda>(i, r).
                case r of
                  Fulfilled v \<Rightarrow> ItemData i (if compact_flag then stripRedundantActions v else v)
                | Rejected reason \<Rightarrow> ItemError i (err_message reason))
             (zip objectIds results))"

text \<open>
  \<open>toLowerCase\<close> (on ASCII letters; other characters are left as they are) and
  \<open>name.includes(f)\<close> (\<open>str_includes\<close>).
\<close>

definition lower_char :: "char \<Rightarrow> char" where
  "lower_char c =
     (if 65 \<le> (of_char c :: nat) \<and> (of_char c :: nat) \<le> 90
      then char_of (of_char c + 32 :: nat) else c)"

definition toLowerCase :: "string \<Rightarrow> string" where
  "toLowerCase s = map lower_char s"

fun str_includes :: "string \<Rightarrow> string \<Rightarrow> bool" where
  "str_includes [] f = (f = [])"
| "str_includes (c # s) f = (startsWith (c # s) f \<or> str_includes s f)"

definition name_matches :: "string list \<Rightarrow> string option \<Rightarrow> bool" where
  "name_matches filters name =
     list_ex (\<lambda>f. str_includes (toLowerCase (text_or_empty name)) f) filters"

text \<open>
  The post-filter by campaign name, applied only when names were asked for
  and the ids were given by the caller. Entries with an error or without rows
  are kept.
\<close>

definition bulk_post_filter :: "string list \<Rightarrow> bulk_item list \<Rightarrow> bulk_item list" where
  "bulk_post_filter campaign_name_contains output =
     (let filters = map toLowerCase campaign_name_contains
      in filter (\<lambda>item.
           case item of
             ItemError _ _ \<Rightarrow> True
           | ItemData _ p \<Rightarrow>
               (case payload_data p of
                  None \<Rightarrow> True
                | Some rows \<Rightarrow>
                    rows = [] \<or> list_ex (\<lambda>row. name_matches filters (row_campaign_name row)) rows))
         output)"

record bulk_output =
  results :: "bulk_item list"
  total :: nat

definition bulk_get_insights_output ::
  "(string \<Rightarrow> api_error + insights_payload) \<Rightarrow> bool \<Rightarrow> string list option \<Rightarrow> bool
     \<Rightarrow> string list \<Rightarrow> bulk_output" where
  "bulk_get_insights_output fetchOne compact_flag campaign_name_contains providedIds objectIds =
     (let output = bulk_fan_out fetchOne compact_flag objectIds;
          output' = (case campaign_name_contains of
                       Some names \<Rightarrow>
                         if names \<noteq> [] \<and> providedIds then bulk_post_filter names output else output
                     | None \<Rightarrow> output)
      in \<lparr>results = output', total = length output'\<rparr>)"

text \<open>A concrete fetch: of three ids, the second always fails.\<close>

definition second_fails :: "string \<Rightarrow> api_error + insights_payload" where
  "second_fails i =
     (if i = ''222'' then Inl (ApiError ''Unsupported get request'' 400)
      else Inr \<lparr>payload_data = Some []\<rparr>)"

text \<open>Concrete networks used as inputs below.\<close>

definition always_404_html :: "nat \<Rightarrow> unit fetch_outcome" where
  "always_404_html k = Response 404 (NotJson ''Unexpected token <'')"

definition always_503_html :: "nat \<Rightarrow> unit fetch_outcome" where
  "always_503_html k = Response 503 (NotJson ''Unexpected token <'')"



section \<open>Properties of the request executor\<close>

text \<open>
  When every attempt is answered with the same status of 500 or more and a
  body that decodes as JSON, the loop started at \<open>attempt\<close> makes one fetch for
  each remaining index up to \<open>retries\<close>, sleeps \<open>RETRY_DELAY_MS * (k + 1)\<close> after
  each attempt \<open>k < retries\<close>, and ends with an \<open>ApiError\<close> that carries the status.
\<close>

lemma graphRequest_loop_5xx_json:
  assumes net: "\<And>k. net k = Response s (Json (js k))" and s: "500 \<le> s"
  shows "attempt \<le> retries \<Longrightarrow>
     attempts (graphRequest_loop net m p retries attempt) = Suc retries - attempt
     \<and> outcome (graphRequest_loop net m p retries attempt) = Inl (ApiError (errDetail (js retries) s) s)
     \<and> [d. Sleep d \<leftarrow> events (graphRequest_loop net m p retries attempt)]
         = map (\<lambda>k. RETRY_DELAY_MS * (k + 1)) [attempt..<retries]"
proof (induction "retries - attempt" arbitrary: attempt)
  case 0
  then have eq: "attempt = retries" by simp
  have "graphRequest_loop net m p retries retries =
      finished [Log Error (''Meta API error on '' @ m @ '' '' @ p)]
        (Inl (ApiError (errDetail (js retries) s) s))"
    using s by (subst graphRequest_loop.simps) (simp add: net res_ok_def Let_def)
  then show ?case by (simp add: eq finished_def)
next
  case (Suc n)
  then have lt: "attempt < retries" and n: "n = retries - (attempt + 1)" and le: "attempt + 1 \<le> retries"
    by simp_all
  note IH = Suc.hyps(1) [OF n le]
  have up: "[attempt..<retries] = attempt # [attempt + 1..<retries]"
    using lt by (simp add: upt_conv_Cons)
  have step: "graphRequest_loop net m p retries attempt =
      after_attempt
        [Log Error (''Meta API error on '' @ m @ '' '' @ p),
         Log Warn (''Meta API '' @ show_nat s @ '' on '' @ m @ '' '' @ p @ '', retrying''),
         Sleep (RETRY_DELAY_MS * (attempt + 1))]
        (graphRequest_loop net m p retries (attempt + 1))"
    using lt s by (subst graphRequest_loop.simps) (simp add: net res_ok_def Let_def)
  show ?case
    using IH lt by (simp add: step after_attempt_def up)
qed

text \<open>
  With JSON bodies the retry bound holds: an ever-503 remote is tried
  \<open>retries + 1\<close> times and surfaces as \<open>ApiError(..., 503)\<close>; an ever-404 remote is
  tried once.
\<close>

lemma graphRequest_always_503_json:
  assumes "\<And>k. net k = Response 503 (Json (js k))"
  shows "attempts (graphRequest net m p retries) = retries + 1
     \<and> outcome (graphRequest net m p retries) = Inl (ApiError (errDetail (js retries) 503) 503)"
  using graphRequest_loop_5xx_json [of net 503 js 0 retries m p] assms
  by (simp add: graphRequest_def)

lemma graphRequest_always_404_json:
  assumes net: "\<And>k. net k = Response 404 (Json (js k))"
  shows "graphRequest net m p retries =
     \<lparr>outcome = Inl (ApiError (errDetail (js 0) 404) 404), attempts = 1,
      events = [Log Error (''Meta API error on '' @ m @ '' '' @ p)]\<rparr>"
  unfolding graphRequest_def
  by (subst graphRequest_loop.simps) (simp add: net res_ok_def finished_def Let_def)

text \<open>
  Claim C1 (retry bound: an ever-503 remote gives \<open>maxRetries + 1\<close> attempts and a
  server error, an ever-404 remote gives exactly one attempt and no retry).
  The code decodes the body with \<open>res.json()\<close> before it looks at the status, so
  a 404 or a 503 whose body is not JSON (an HTML error page of a gateway) never
  reaches the status test: the \<open>SyntaxError\<close> lands in the \<open>catch\<close> block and is
  handled as a network error. The ever-404 remote is then tried three times
  with two back-off sleeps, and both remotes surface as
  \<open>ApiError('Network error: ...', 0)\<close> instead of carrying their status.
\<close>

theorem graphGet_non_json_error_body_misclassified:
  "graphGet always_404_html ''/act_1/insights'' =
     \<lparr>outcome = Inl (ApiError ''Network error: Unexpected token <'' 0), attempts = 3,
      events = [Log Warn ''Network error on GET /act_1/insights, retrying'', Sleep 1000,
                Log Warn ''Network error on GET /act_1/insights, retrying'', Sleep 2000]\<rparr>
   \<and> graphGet always_503_html ''/act_1/insights'' =
     \<lparr>outcome = Inl (ApiError ''Network error: Unexpected token <'' 0), attempts = 3,
      events = [Log Warn ''Network error on GET /act_1/insights, retrying'', Sleep 1000,
                Log Warn ''Network error on GET /act_1/insights, retrying'', Sleep 2000]\<rparr>"
  by (simp add: graphGet_def graphRequest_def MAX_RETRIES_def graphRequest_loop.simps
      after_attempt_def finished_def RETRY_DELAY_MS_def always_404_html_def always_503_html_def)




section \<open>Properties of the metric normalizer\<close>

lemma floor_one_half [simp]: "\<lfloor>(1::rat) / 2\<rfloor> = 0"
  by (simp add: floor_eq_iff)












text \<open>
  Claim C8 (division-by-zero safety): a row whose parsed spend is 0 has
  \<open>roas = 0\<close> and \<open>cpa = 0\<close>; a row whose parsed purchase count is 0 has
  \<open>cpa = 0\<close>. Each ratio is computed only behind the test that its divisor is
  greater than 0, and a zero spend divided by a positive count rounds to 0.
\<close>

theorem calcDerivedMetrics_zero_denominators:
  "(parseFloat (text_or_0 (row_spend row)) = Fin 0 \<longrightarrow>
      roas (calcDerivedMetrics row) = Fin 0 \<and> cpa (calcDerivedMetrics row) = Fin 0)
   \<and> (getActionValue (row_actions row) ''purchase'' = Fin 0 \<longrightarrow>
      cpa (calcDerivedMetrics row) = Fin 0)"
proof -
  have "round_100 (js_div (Fin 0) p) = Fin 0" if "js_gt p (Fin 0)" for p
    using that by (cases p) (simp_all add: round_100_def)
  then show ?thesis
    by (simp add: calcDerivedMetrics_def Let_def)
qed

theorem calcDerivedMetrics_zero_denominators_witness:
  "parseFloat (text_or_0 (row_spend zero_spend_row)) = Fin 0
   \<and> getActionValue (row_actions zero_spend_row) ''purchase'' = Fin 5
   \<and> roas (calcDerivedMetrics zero_spend_row) = Fin 0
   \<and> cpa (calcDerivedMetrics zero_spend_row) = Fin 0
   \<and> parseFloat (text_or_0 (row_spend no_purchase_row)) = Fin 25
   \<and> getActionValue (row_actions no_purchase_row) ''purchase'' = Fin 0
   \<and> cpa (calcDerivedMetrics no_purchase_row) = Fin 0"
proof -
  have a: "parseFloat (text_or_0 (row_spend zero_spend_row)) = Fin 0"
    and b: "getActionValue (row_actions zero_spend_row) ''purchase'' = Fin 5"
    and c: "parseFloat (text_or_0 (row_spend no_purchase_row)) = Fin 25"
    and d: "getActionValue (row_actions no_purchase_row) ''purchase'' = Fin 0"
    by code_simp+
  from calcDerivedMetrics_zero_denominators [of zero_spend_row]
    calcDerivedMetrics_zero_denominators [of no_purchase_row] a b c d
  show ?thesis by simp
qed

section \<open>Properties of the comparison arithmetic\<close>



section \<open>Properties of the date range resolver\<close>

lemma length_pad_left: "n \<le> length (pad_left n s)"
  by (simp add: pad_left_def)

lemma take_front: "n \<le> length xs \<Longrightarrow> take n (xs @ ys) = take n xs"
  by simp

lemma length_iso_date_part: "10 \<le> length (iso_date_part z)"
proof -
  obtain y m d where c: "civil_from_days z = (y, m, d)"
    by (cases "civil_from_days z") auto
  have p4: "4 \<le> length (pad_left 4 (show_nat (nat y)))" by (rule length_pad_left)
  have p6: "6 \<le> length (pad_left 6 (show_nat (nat \<bar>y\<bar>)))" by (rule length_pad_left)
  have pm: "2 \<le> length (pad_left 2 (show_nat (nat m)))" by (rule length_pad_left)
  have pd: "2 \<le> length (pad_left 2 (show_nat (nat d)))" by (rule length_pad_left)
  show ?thesis
    unfolding iso_date_part_def c Let_def prod.case
    using p4 p6 pm pd by (simp split: if_splits)
qed

lemma iso_date_front: "iso_date t = take 10 (iso_date_part (t div msPerDay))"
  by (simp only: iso_date_def toISOString_def Let_def take_front [OF length_iso_date_part])

lemma iso_date_day: "iso_date t = date_text (t div msPerDay)"
proof -
  have "(t div msPerDay * msPerDay) div msPerDay = t div msPerDay"
    by (simp add: msPerDay_def)
  then show ?thesis
    by (simp only: date_text_def iso_date_front)
qed

lemma setDate_relative_constant:
  assumes "\<And>t. tza_of_utc env t = c" and "\<And>t. tza_of_local env t = c"
  shows "setDate_relative env (Some t) (Some k) = TimeClip (t + k * msPerDay)"
  by (simp add: setDate_relative_def LocalTime_def UTC_def assms)

lemma range_of_valid: "range_of (Some a) (Some b) = Inr \<lparr>since = iso_date a, until = iso_date b\<rparr>"
  by (simp add: range_of_def fmt_def)











text \<open>
  Claim C10 (an explicit range is passed through): for an object argument the
  resolver returns the object itself, whatever its two texts are; nothing is
  validated, so a range with \<open>since\<close> after \<open>until\<close> comes back unchanged.
\<close>

theorem resolveDateRange_explicit_unchanged:
  "resolveDateRange env (Explicit r) = Inr r
   \<and> resolveDateRange env (Explicit \<lparr>since = ''2025-03-14'', until = ''2025-03-08''\<rparr>)
       = Inr \<lparr>since = ''2025-03-14'', until = ''2025-03-08''\<rparr>"
  by (simp add: resolveDateRange_def)

text \<open>
  The previous period in a time zone with a constant offset from UTC: for
  two date texts with \<open>since \<le> until\<close>, on the days \<open>a\<close> and \<open>b\<close>, the result ends on
  day \<open>a - 1\<close> and starts \<open>b - a\<close> days before that, so it has the \<open>b - a + 1\<close> days
  of the given range and ends the day before it starts.
\<close>

lemma digit_val_range: "is_digit c \<Longrightarrow> 0 \<le> digit_val c \<and> digit_val c \<le> 9"
  by (auto simp: is_digit_def digit_val_def)

lemma digits_val_snoc: "digits_val (ds @ [c]) = 10 * digits_val ds + digit_val c"
  by (simp add: digits_val_def)

lemma digits_val_range:
  "list_all is_digit ds \<Longrightarrow> 0 \<le> digits_val ds \<and> digits_val ds < 10 ^ length ds"
proof (induction ds rule: rev_induct)
  case Nil
  show ?case by (simp add: digits_val_def)
next
  case (snoc c ds)
  then have d: "0 \<le> digit_val c \<and> digit_val c \<le> 9" and IH: "0 \<le> digits_val ds \<and> digits_val ds < 10 ^ length ds"
    by (simp_all add: digit_val_range)
  show ?case
    using d IH by (simp add: digits_val_snoc)
qed

lemma days_from_civil_range:
  assumes "0 \<le> y" "y \<le> 9999" "1 \<le> m" "m \<le> 12"
  shows "- 1000000 \<le> days_from_civil y m 1 \<and> days_from_civil y m 1 \<le> 3000000"
proof -
  define y' where "y' = (if m \<le> 2 then y - 1 else y)"
  define mm where "mm = (if 2 < m then m - 3 else m + 9)"
  define era where "era = y' div 400"
  define yoe where "yoe = y' mod 400"
  define doy where "doy = (153 * mm + 2) div 5"
  have y': "- 1 \<le> y'" "y' \<le> 9999" using assms by (simp_all add: y'_def)
  have mm: "0 \<le> mm" "mm \<le> 11" using assms by (simp_all add: mm_def)
  have "(- 1) div 400 \<le> y' div 400" using y'(1) by (rule zdiv_mono1) simp
  moreover have "y' div 400 \<le> 9999 div 400" using y'(2) by (rule zdiv_mono1) simp
  ultimately have era: "- 1 \<le> era" "era \<le> 24" by (simp_all add: era_def)
  have yoe: "0 \<le> yoe" "yoe \<le> 399" by (simp_all add: yoe_def)
  have "yoe div 4 \<le> 399 div 4" using yoe(2) by (rule zdiv_mono1) simp
  moreover have "yoe div 100 \<le> 399 div 100" using yoe(2) by (rule zdiv_mono1) simp
  moreover have "0 \<le> yoe div 4" "0 \<le> yoe div 100" using yoe(1) by (simp_all add: pos_imp_zdiv_nonneg_iff)
  ultimately have q: "0 \<le> yoe div 4" "yoe div 4 \<le> 99" "0 \<le> yoe div 100" "yoe div 100 \<le> 3"
    by simp_all
  have "153 * mm + 2 \<le> 1685" "0 \<le> 153 * mm + 2" using mm by simp_all
  then have "doy \<le> 1685 div 5" "0 \<le> doy"
    unfolding doy_def by (simp_all add: zdiv_mono1 pos_imp_zdiv_nonneg_iff)
  then have doy: "0 \<le> doy" "doy \<le> 337" by simp_all
  have "y' - y' div 400 * 400 = yoe"
    by (simp add: yoe_def minus_div_mult_eq_mod)
  then have "days_from_civil y m 1 =
      era * 146097 + (yoe * 365 + yoe div 4 - yoe div 100 + (doy + 1 - 1)) - 719468"
    by (simp add: days_from_civil_def Let_def y'_def [symmetric] mm_def [symmetric] era_def doy_def)
  then show ?thesis
    using era yoe q doy by linarith
qed

lemma new_Date_text_Some:
  assumes "new_Date_text x = Some t"
  shows "\<exists>z. t = z * msPerDay \<and> - 1000000 \<le> z \<and> z \<le> 3000031"
proof -
  define y where "y = digits_val (take 4 x)"
  define m where "m = digits_val (take 2 (drop 5 x))"
  define d where "d = digits_val (drop 8 x)"
  from assms have form: "length x = 10" "list_all is_digit (take 4 x)"
    and md: "1 \<le> m \<and> m \<le> 12 \<and> 1 \<le> d \<and> d \<le> 31"
    and t: "TimeClip (MakeDay y (m - 1) d * msPerDay) = Some t"
    unfolding new_Date_text_def y_def m_def d_def Let_def
    by (simp_all split: if_splits)
  have "0 \<le> y \<and> y < 10 ^ length (take 4 x)"
    unfolding y_def using form(2) by (rule digits_val_range)
  then have y: "0 \<le> y" "y \<le> 9999" using form(1) by simp_all
  have "(m - 1) div 12 = 0" "(m - 1) mod 12 + 1 = m" using md by simp_all
  then have mk: "MakeDay y (m - 1) d = days_from_civil y m 1 + d - 1"
    by (simp add: MakeDay_def)
  from days_from_civil_range [of y m] y md
  have "- 1000000 \<le> MakeDay y (m - 1) d \<and> MakeDay y (m - 1) d \<le> 3000031"
    by (simp add: mk)
  moreover from t have "t = MakeDay y (m - 1) d * msPerDay"
    by (simp add: TimeClip_def split: if_splits)
  ultimately show ?thesis by blast
qed

lemma getPreviousPeriod_constant_offset:
  assumes utc: "\<And>t. tza_of_utc env t = c" and loc: "\<And>t. tza_of_local env t = c"
    and s: "new_Date_text sinceText = Some s" and u: "new_Date_text untilText = Some u"
    and le: "s \<le> u"
  shows "getPreviousPeriod env sinceText untilText =
     Inr \<lparr>since = date_text (s div msPerDay - 1 - (u div msPerDay - s div msPerDay)),
          until = date_text (s div msPerDay - 1)\<rparr>"
proof -
  from new_Date_text_Some [OF s] obtain a where a: "s = a * msPerDay" "- 1000000 \<le> a" "a \<le> 3000031"
    by blast
  from new_Date_text_Some [OF u] obtain b where b: "u = b * msPerDay" "- 1000000 \<le> b" "b \<le> 3000031"
    by blast
  have ab: "a \<le> b" using le a(1) b(1) by (simp add: msPerDay_def)
  have days: "\<lfloor>rat_of_int (u - s) / rat_of_int msPerDay + 1 / 2\<rfloor> + 1 = b - a + 1"
  proof -
    have "rat_of_int (u - s) / rat_of_int msPerDay = rat_of_int (b - a)"
      by (simp add: a(1) b(1) msPerDay_def field_simps)
    then show ?thesis by simp
  qed
  have 1: "setDate_relative env (Some s) (Some (- 1)) = Some ((a - 1) * msPerDay)"
    using a by (simp add: setDate_relative_constant [OF utc loc] TimeClip_def msPerDay_def)
  have 2: "setDate_relative env (Some ((a - 1) * msPerDay)) (Some (- (b - a + 1) + 1))
      = Some ((a - 1 - (b - a)) * msPerDay)"
    using a b ab by (simp add: setDate_relative_constant [OF utc loc] TimeClip_def msPerDay_def)
  have 3: "((a - 1) * msPerDay) div msPerDay = a - 1"
    "((a - 1 - (b - a)) * msPerDay) div msPerDay = a - 1 - (b - a)"
    "s div msPerDay = a" "u div msPerDay = b"
    by (simp_all add: a(1) b(1) msPerDay_def)
  show ?thesis
    unfolding getPreviousPeriod_def Let_def s u prod.case option.case days option.map 1 2
    by (simp only: range_of_valid iso_date_day 3)
qed

text \<open>
  Claim C6 (the previous period has the same number of days and ends on
  \<open>since - 1\<close>). \<open>getPreviousPeriod\<close> reads and prints its dates in UTC but moves
  them with \<open>setDate\<close> and \<open>getDate\<close>, which work in local time. In a time zone that
  changes its offset this is off by a day whenever a move crosses the change
  backwards from winter to summer time. In Europe/Berlin the 28 days
  2025-11-10..2025-12-07 get the 29 days 2025-10-12..2025-11-09 as their
  previous period, and the single day 2025-10-27 gets 2025-10-25, which is not
  the day before it. In UTC the same call gives 2025-10-13..2025-11-09.
\<close>

theorem getPreviousPeriod_offset_change:
  "getPreviousPeriod berlin_env ''2025-11-10'' ''2025-12-07''
     = Inr \<lparr>since = ''2025-10-12'', until = ''2025-11-09''\<rparr>
   \<and> getPreviousPeriod berlin_env ''2025-10-27'' ''2025-10-27''
     = Inr \<lparr>since = ''2025-10-25'', until = ''2025-10-25''\<rparr>
   \<and> getPreviousPeriod utc_env ''2025-11-10'' ''2025-12-07''
     = Inr \<lparr>since = ''2025-10-13'', until = ''2025-11-09''\<rparr>"
  by code_simp

end
